theory Spec2Isabelle
  imports Main "HOL-Library.Sublist"
begin

section \<open>Python string primitives used by the PBS plugin\<close>

text \<open>
  The plugin (\<^verbatim>\<open>nipype/pipeline/plugins/pbs.py\<close>) works on Python \<^verbatim>\<open>str\<close> values with
  the operators \<^verbatim>\<open>in\<close>, \<^verbatim>\<open>str.split\<close>, \<^verbatim>\<open>str.join\<close>, slicing and indexing. Strings are
  modelled as \<^typ>\<open>string\<close> (character lists).
\<close>

text \<open>\<^verbatim>\<open>pat in s\<close> for two strings: \<^verbatim>\<open>pat\<close> occurs in \<^verbatim>\<open>s\<close> as a contiguous block.\<close>

fun str_in :: "string \<Rightarrow> string \<Rightarrow> bool" where
  "str_in pat [] = (pat = [])"
| "str_in pat (c # cs) = (prefix pat (c # cs) \<or> str_in pat cs)"

text \<open>
  \<^verbatim>\<open>s.split(c)\<close> for a one-character separator \<^verbatim>\<open>c\<close>: a separator closes the current
  item, any other character goes in front of the first item of the rest (the rest always
  has a first item, see \<open>split_chr_nonempty\<close>).
\<close>

fun split_chr :: "char \<Rightarrow> string \<Rightarrow> string list" where
  "split_chr c [] = [[]]"
| "split_chr c (x # xs) =
     (if x = c then [] # split_chr c xs
      else (case split_chr c xs of
              [] \<Rightarrow> [[x]]
            | w # ws \<Rightarrow> (x # w) # ws))"

text \<open>\<^verbatim>\<open>sep.join(items)\<close>.\<close>

fun join_str :: "string \<Rightarrow> string list \<Rightarrow> string" where
  "join_str sep [] = []"
| "join_str sep [x] = x"
| "join_str sep (x # y # ys) = x @ sep @ join_str sep (y # ys)"

text \<open>
  \<^verbatim>\<open>s[0:n]\<close> for an integer \<^verbatim>\<open>n\<close>: a negative bound counts from the end of the string
  and is clipped at 0.
\<close>

definition slice0 :: "int \<Rightarrow> string \<Rightarrow> string" where
  "slice0 n s = (if 0 \<le> n then take (nat n) s else take (nat (int (length s) + n)) s)"

datatype error =
    KeyError string
  | IndexError
  | TypeError
  | ValueError string
  | RuntimeError string
  | BaseException string

text \<open>\<^verbatim>\<open>xs[0]\<close>: raises \<^verbatim>\<open>IndexError\<close> on the empty list.\<close>

definition index0 :: "'a list \<Rightarrow> error + 'a" where
  "index0 xs = (case xs of [] \<Rightarrow> Inl IndexError | x # _ \<Rightarrow> Inr x)"

text \<open>\<^verbatim>\<open>s.rfind(c)\<close> for a one-character \<^verbatim>\<open>c\<close>: the last index of \<^verbatim>\<open>c\<close>, or -1.\<close>

definition rfind_chr :: "char \<Rightarrow> string \<Rightarrow> int" where
  "rfind_chr c s =
     (let k = length (takeWhile (\<lambda>x. x \<noteq> c) (rev s))
      in if k = length s then - 1 else int (length s) - 1 - int k)"

text \<open>\<^verbatim>\<open>s.rstrip(c)\<close> for a one-character \<^verbatim>\<open>c\<close>.\<close>

definition rstrip_chr :: "char \<Rightarrow> string \<Rightarrow> string" where
  "rstrip_chr c s = rev (dropWhile (\<lambda>x. x = c) (rev s))"

text \<open>
  \<^verbatim>\<open>s.replace(old, new)\<close>: every non-overlapping occurrence of \<^verbatim>\<open>old\<close>, scanning from
  the left; an empty \<^verbatim>\<open>old\<close> matches before every character and at the end.
\<close>

fun replace_str :: "string \<Rightarrow> string \<Rightarrow> string \<Rightarrow> string" where
  "replace_str [] new s = new @ concat (map (\<lambda>c. c # new) s)"
| "replace_str (a # as) new [] = []"
| "replace_str (a # as) new (c # cs) =
     (if prefix (a # as) (c # cs)
      then new @ replace_str (a # as) new (drop (length as) cs)
      else c # replace_str (a # as) new cs)"

subsection \<open>\<^verbatim>\<open>os.path\<close> (POSIX flavour)\<close>

text \<open>
  \<^verbatim>\<open>os.path.dirname(p)\<close>: everything up to and including the last slash, with trailing
  slashes removed unless the head consists of slashes only.
\<close>

definition dirname :: "string \<Rightarrow> string" where
  "dirname p =
     (let i = rfind_chr CHR ''/'' p + 1;
          head = take (nat i) p
      in if head \<noteq> [] \<and> head \<noteq> replicate (length head) CHR ''/''
         then rstrip_chr CHR ''/'' head else head)"

text \<open>
  \<^verbatim>\<open>os.path.splitext(p)\<close>: split at the last dot of the last path component, unless that
  component consists of leading dots only up to it.
\<close>

definition splitext :: "string \<Rightarrow> string \<times> string" where
  "splitext p =
     (let sepIndex = rfind_chr CHR ''/'' p;
          dotIndex = rfind_chr CHR ''.'' p
      in if dotIndex > sepIndex
            \<and> list_ex (\<lambda>x. x \<noteq> CHR ''.'')
                 (take (nat (dotIndex - (sepIndex + 1))) (drop (nat (sepIndex + 1)) p))
         then (take (nat dotIndex) p, drop (nat dotIndex) p)
         else (p, []))"

section \<open>Status poller: \<^verbatim>\<open>PBSPlugin._is_pending\<close>\<close>

text \<open>
  The status query \<^verbatim>\<open>qstat -f <taskid>\<close> runs with \<^verbatim>\<open>ignore_exception=True\<close>; what
  the method classifies is the pair of captured standard output and standard error.
\<close>

definition errmsg :: string where
  "errmsg = ''Unknown Job Id''"

definition success :: string where
  "success = ''Job has finished''"

definition is_pending :: "string \<Rightarrow> string \<Rightarrow> bool" where
  "is_pending stdout stderr =
     (if str_in success stderr \<or> str_in ''job_state = C'' stdout then False
      else \<not> str_in errmsg stderr)"

section \<open>Data model\<close>

text \<open>Values found in a node's \<^verbatim>\<open>plugin_args\<close> dictionary, with Python truthiness.\<close>

datatype pyval = PyStr string | PyBool bool

fun truthy :: "pyval \<Rightarrow> bool" where
  "truthy (PyStr s) = (s \<noteq> [])"
| "truthy (PyBool b) = b"

text \<open>
  The node handed to the plugin: \<^verbatim>\<open>node._hierarchy\<close> (a dotted string; empty when the
  node has no enclosing workflow), \<^verbatim>\<open>node._id\<close>, \<^verbatim>\<open>node.plugin_args\<close> and the value of
  \<^verbatim>\<open>node.output_dir()\<close>.
\<close>

record node =
  n_hierarchy :: string
  n_id :: string
  n_plugin_args :: "string \<rightharpoonup> pyval"
  n_output_dir :: string

text \<open>
  The plugin object: \<^verbatim>\<open>_qsub_args\<close> (set by the base class; empty when unset),
  \<^verbatim>\<open>_retry_timeout\<close>, \<^verbatim>\<open>_max_tries\<close>, \<^verbatim>\<open>_max_jobname_len\<close> (the class attribute unless
  overridden) and \<^verbatim>\<open>_max_jobname_length\<close> (assigned by the constructor, never read).
\<close>

record pbs_plugin =
  qsub_args :: string
  retry_timeout :: int
  max_tries :: int
  max_jobname_len :: int
  max_jobname_length :: int

text \<open>The keys of \<^verbatim>\<open>kwargs["plugin_args"]\<close> that the constructor reads.\<close>

record init_args =
  a_retry_timeout :: "int option"
  a_max_tries :: "int option"
  a_max_jobname_len :: "int option"

text \<open>
  \<^verbatim>\<open>PBSPlugin.__init__\<close>. The first argument is \<^verbatim>\<open>None\<close> when \<^verbatim>\<open>plugin_args\<close> is absent or
  empty; the second is the \<^verbatim>\<open>_qsub_args\<close> that the base-class constructor stores.
\<close>

definition PBSPlugin_init :: "init_args option \<Rightarrow> string \<Rightarrow> pbs_plugin" where
  "PBSPlugin_init plugin_args base_qsub_args =
     (let self = \<lparr>qsub_args = base_qsub_args, retry_timeout = 2, max_tries = 2,
                   max_jobname_len = 15, max_jobname_length = 15\<rparr>
      in case plugin_args of
           None \<Rightarrow> self
         | Some pa \<Rightarrow>
             (let s1 = (case a_retry_timeout pa of
                          Some v \<Rightarrow> self\<lparr>retry_timeout := v\<rparr> | None \<Rightarrow> self);
                  s2 = (case a_max_tries pa of
                          Some v \<Rightarrow> s1\<lparr>max_tries := v\<rparr> | None \<Rightarrow> s1)
              in case a_max_jobname_len pa of
                   Some v \<Rightarrow> s2\<lparr>max_jobname_len := v\<rparr> | None \<Rightarrow> s2))"

text \<open>
  What a submission can observe and change: the pending-task registry \<^verbatim>\<open>self._pending\<close>,
  the level of the interface logger, the sleeps taken (their durations, oldest first) and
  the commands handed to the executor (command and argument string, oldest first).
\<close>

record world =
  pending :: "string \<rightharpoonup> string"
  iflogger_level :: int
  sleeps :: "int list"
  invoked :: "(string \<times> string) list"

text \<open>
  One \<^verbatim>\<open>cmd.run()\<close>: it raises an \<^verbatim>\<open>Exception\<close> (carrying its text), or raises something
  outside \<^verbatim>\<open>Exception\<close> such as \<^verbatim>\<open>KeyboardInterrupt\<close> (carrying its name), or returns a
  result whose \<^verbatim>\<open>runtime.stdout\<close> is given. The executor is a parameter: the outcome may
  depend on the command, its arguments and the number of commands run before.
\<close>

datatype run_outcome = Raised string | Escaped string | Returned string

type_synonym executor = "string \<Rightarrow> string \<Rightarrow> nat \<Rightarrow> run_outcome"

definition CRITICAL :: int where
  "CRITICAL = 50"

text \<open>
  \<^verbatim>\<open>time.sleep(secs)\<close>: a negative length raises \<^verbatim>\<open>ValueError\<close>; otherwise the sleep is
  taken.
\<close>

definition time_sleep :: "int \<Rightarrow> world \<Rightarrow> error + world" where
  "time_sleep secs w =
     (if secs < 0 then Inl (ValueError ''sleep length must be non-negative'')
      else Inr (w\<lparr>sleeps := sleeps w @ [secs]\<rparr>))"

section \<open>Batch submitter: \<^verbatim>\<open>PBSPlugin._submit_batchtask\<close>\<close>

subsection \<open>Submission arguments\<close>

text \<open>
  Lines 72--79: the plugin's arguments, replaced or extended by the node's. A node value
  that is not a string fails in the concatenation (or in the containment test below).
\<close>

definition merged_qsubargs :: "pbs_plugin \<Rightarrow> node \<Rightarrow> error + string" where
  "merged_qsubargs self nd =
     (let qsubargs = (if qsub_args self \<noteq> [] then qsub_args self else [])
      in case n_plugin_args nd ''qsub_args'' of
           None \<Rightarrow> Inr qsubargs
         | Some (PyBool b) \<Rightarrow> Inl TypeError
         | Some (PyStr a) \<Rightarrow>
             (if (case n_plugin_args nd ''overwrite'' of
                    None \<Rightarrow> False | Some v \<Rightarrow> truthy v)
              then Inr a
              else Inr (qsubargs @ '' '' @ a)))"

text \<open>Lines 80--83: the redirection flags, added when their text is not found.\<close>

definition add_redirects :: "string \<Rightarrow> string \<Rightarrow> string" where
  "add_redirects path qsubargs =
     (let q1 = (if \<not> str_in ''-o'' qsubargs then qsubargs @ '' -o '' @ path else qsubargs)
      in if \<not> str_in ''-e'' q1 then q1 @ '' -e '' @ path else q1)"

subsection \<open>Job name\<close>

text \<open>Lines 84--91, for the user name found in the environment.\<close>

definition jobname_of :: "string \<Rightarrow> string \<Rightarrow> string \<Rightarrow> int \<Rightarrow> string" where
  "jobname_of user hierarchy ident maxlen =
     (let jobname = (if hierarchy \<noteq> [] then join_str ''.'' [user, hierarchy, ident]
                     else join_str ''.'' [user, ident]);
          jobnameitems = split_chr CHR ''.'' jobname;
          jobname' = join_str ''.'' (rev jobnameitems)
      in slice0 maxlen jobname')"

subsection \<open>Command\<close>

text \<open>
  Lines 92--101 of the file hold both sides of a merge between conflict markers. Both
  are modelled: \<open>Head\<close> pipes a Python call on the script's \<^verbatim>\<open>.py\<close> sibling into
  \<^verbatim>\<open>qsub\<close>, \<open>Upstream\<close> passes the arguments, the job name and the script.
\<close>

datatype merge_side = Head | Upstream

definition py_filename_of :: "string \<Rightarrow> string" where
  "py_filename_of scriptfile =
     replace_str ''batchscript_'' [] (fst (splitext scriptfile)) @ ''.py''"

definition cmd_args :: "merge_side \<Rightarrow> string \<Rightarrow> string \<Rightarrow> string \<Rightarrow> string" where
  "cmd_args side qsubargs jobname scriptfile =
     (case side of
        Head \<Rightarrow>
          [CHR '' '', CHR 0x22] @ ''/home/predatt/giaald/.conda/envs/giacomo/bin/python ''
            @ py_filename_of scriptfile @ [CHR 0x22] @ '' | qsub '' @ qsubargs
            @ '' -N '' @ jobname
      | Upstream \<Rightarrow> qsubargs @ '' -N '' @ jobname @ '' '' @ scriptfile)"

text \<open>
  Lines 65--101: the command (\<^verbatim>\<open>echo\<close>) and its argument string, or the error raised on
  the way (\<^verbatim>\<open>LOGNAME\<close> is read with a plain subscript).
\<close>

definition build_command ::
  "merge_side \<Rightarrow> (string \<rightharpoonup> string) \<Rightarrow> pbs_plugin \<Rightarrow> string \<Rightarrow> node
     \<Rightarrow> error + (string \<times> string)" where
  "build_command side environ self scriptfile nd =
     (let path = dirname scriptfile
      in case merged_qsubargs self nd of
           Inl e \<Rightarrow> Inl e
         | Inr q0 \<Rightarrow>
             (let qsubargs = add_redirects path q0
              in case environ ''LOGNAME'' of
                   None \<Rightarrow> Inl (KeyError ''LOGNAME'')
                 | Some user \<Rightarrow>
                     (let jobname = jobname_of user (n_hierarchy nd) (n_id nd)
                                      (max_jobname_len self)
                      in Inr (''echo'', cmd_args side qsubargs jobname scriptfile))))"

subsection \<open>Retry loop\<close>

text \<open>
  Lines 105--120. Each iteration runs the command once. A returned result leaves the
  loop with its standard output. An \<^verbatim>\<open>Exception\<close> is caught: while \<^verbatim>\<open>tries\<close> is below
  \<^verbatim>\<open>_max_tries\<close> the handler sleeps and the loop goes on, otherwise it restores the logger
  level and raises \<^verbatim>\<open>RuntimeError\<close>. Anything else leaves the method as it is raised,
  without the level being restored: what \<^verbatim>\<open>except Exception\<close> does not catch, and what
  \<^verbatim>\<open>sleep\<close> raises inside the handler.
\<close>

function submit_loop ::
  "executor \<Rightarrow> pbs_plugin \<Rightarrow> node \<Rightarrow> string \<Rightarrow> string \<Rightarrow> int \<Rightarrow> int \<Rightarrow> world
     \<Rightarrow> (error + string) \<times> world" where
  "submit_loop run self nd cmd args oldlevel tries w =
     (let w1 = w\<lparr>invoked := invoked w @ [(cmd, args)]\<rparr>
      in case run cmd args (length (invoked w)) of
           Returned out \<Rightarrow> (Inr out, w1)
         | Escaped b \<Rightarrow> (Inl (BaseException b), w1)
         | Raised e \<Rightarrow>
             (if tries < max_tries self
              then (case time_sleep (retry_timeout self) w1 of
                      Inl err \<Rightarrow> (Inl err, w1)
                    | Inr w2 \<Rightarrow> submit_loop run self nd cmd args oldlevel (tries + 1) w2)
              else (Inl (RuntimeError
                      (''Could not submit pbs task for node '' @ n_id nd @ [CHR 0x0A] @ e)),
                    w1\<lparr>iflogger_level := oldlevel\<rparr>)))"
  by pat_completeness auto
termination
  by (relation "measure (\<lambda>(run, self, nd, cmd, args, oldlevel, tries, w).
        nat (max_tries self - tries))") auto

declare submit_loop.simps [simp del]

subsection \<open>The whole method\<close>

text \<open>Line 123: \<^verbatim>\<open>result.runtime.stdout.split(".")[0]\<close>.\<close>

definition parse_taskid :: "string \<Rightarrow> error + string" where
  "parse_taskid stdout = index0 (split_chr CHR ''.'' stdout)"

definition submit_batchtask ::
  "executor \<Rightarrow> merge_side \<Rightarrow> (string \<rightharpoonup> string) \<Rightarrow> pbs_plugin \<Rightarrow> string \<Rightarrow> node
     \<Rightarrow> world \<Rightarrow> (error + string) \<times> world" where
  "submit_batchtask run side environ self scriptfile nd w =
     (case build_command side environ self scriptfile nd of
        Inl e \<Rightarrow> (Inl e, w)
      | Inr (cmd, args) \<Rightarrow>
          (let oldlevel = iflogger_level w;
               w1 = w\<lparr>iflogger_level := CRITICAL\<rparr>
           in case submit_loop run self nd cmd args oldlevel 0 w1 of
                (Inl e, w2) \<Rightarrow> (Inl e, w2)
              | (Inr stdout, w2) \<Rightarrow>
                  (let w3 = w2\<lparr>iflogger_level := oldlevel\<rparr>
                   in case parse_taskid stdout of
                        Inl e \<Rightarrow> (Inl e, w3)
                      | Inr taskid \<Rightarrow>
                          (Inr taskid,
                           w3\<lparr>pending := (pending w3)(taskid \<mapsto> n_output_dir nd)\<rparr>))))"

section \<open>Vocabulary of the properties\<close>

text \<open>
  How often a flag is present in an argument string: the number of blank-separated
  words equal to it.
\<close>

definition flag_count :: "string \<Rightarrow> string \<Rightarrow> nat" where
  "flag_count flag args = count_list (split_chr CHR '' '' args) flag"

section \<open>Facts about the string primitives\<close>

lemma str_in_sublist: "str_in pat s \<longleftrightarrow> sublist pat s"
  by (induction s) (auto simp: sublist_Cons_right)

lemma split_chr_nonempty: "split_chr c s \<noteq> []"
  by (induction s) (auto split: list.splits)

lemma split_chr_Cons:
  "split_chr c (x # xs) =
     (if x = c then [] # split_chr c xs
      else (x # hd (split_chr c xs)) # tl (split_chr c xs))"
  using split_chr_nonempty [of c xs] by (cases "split_chr c xs") auto

lemma split_chr_append:
  "split_chr c (a @ c # b) = split_chr c a @ split_chr c b"
  by (induction a)
    (auto simp: split_chr_Cons split_chr_nonempty simp del: split_chr.simps(2))

lemma hd_split_chr: "hd (split_chr c s) = takeWhile (\<lambda>x. x \<noteq> c) s"
  by (induction s) (auto simp: split_chr_Cons simp del: split_chr.simps(2))

lemma split_chr_no_sep: "c \<notin> set s \<Longrightarrow> split_chr c s = [s]"
  by (induction s) auto

lemma split_chr_token_sublist: "t \<in> set (split_chr c s) \<Longrightarrow> sublist t s"
proof (induction s arbitrary: t)
  case Nil
  then show ?case by simp
next
  case (Cons x xs)
  show ?case
  proof (cases "x = c")
    case True
    with Cons.prems have "t = [] \<or> t \<in> set (split_chr c xs)"
      by (simp add: split_chr_Cons del: split_chr.simps(2))
    then show ?thesis using Cons.IH by (auto simp: sublist_Cons_right)
  next
    case False
    with Cons.prems have "t = x # hd (split_chr c xs) \<or> t \<in> set (tl (split_chr c xs))"
      by (simp add: split_chr_Cons del: split_chr.simps(2))
    then show ?thesis
    proof
      assume t: "t = x # hd (split_chr c xs)"
      have "prefix (hd (split_chr c xs)) xs"
        by (simp add: hd_split_chr takeWhile_is_prefix)
      then have "prefix t (x # xs)" using t by simp
      then show ?thesis by (rule prefix_imp_sublist)
    next
      assume "t \<in> set (tl (split_chr c xs))"
      then have "t \<in> set (split_chr c xs)"
        by (rule list.set_sel(2) [rotated]) (simp add: split_chr_nonempty)
      then show ?thesis using Cons.IH by (auto simp: sublist_Cons_right)
    qed
  qed
qed

lemma flag_count_absent: "\<not> sublist flag s \<Longrightarrow> flag_count flag s = 0"
  unfolding flag_count_def using split_chr_token_sublist [of flag "CHR '' ''" s]
  by (auto simp: count_list_0_iff)

lemma flag_count_append:
  "flag_count flag (a @ CHR '' '' # b) = flag_count flag a + flag_count flag b"
  by (simp add: flag_count_def split_chr_append)

lemma slice0_length: "0 \<le> n \<Longrightarrow> length (slice0 n s) \<le> nat n"
  by (simp add: slice0_def)

lemma parse_taskid_eq: "parse_taskid s = Inr (takeWhile (\<lambda>x. x \<noteq> CHR ''.'') s)"
proof -
  obtain w ws where "split_chr CHR ''.'' s = w # ws"
    using split_chr_nonempty [of "CHR ''.''" s] by (cases "split_chr CHR ''.'' s") auto
  moreover from this have "w = takeWhile (\<lambda>x. x \<noteq> CHR ''.'') s"
    using hd_split_chr [of "CHR ''.''" s] by simp
  ultimately show ?thesis by (simp add: parse_taskid_def index0_def)
qed

section \<open>Facts about the redirection flags\<close>

lemma str_in_append2:
  "str_in [a, b] (m @ c # r) \<longleftrightarrow>
     str_in [a, b] m \<or> (m \<noteq> [] \<and> last m = a \<and> c = b) \<or> str_in [a, b] (c # r)"
proof (induction m)
  case Nil
  then show ?case by simp
next
  case (Cons x xs)
  then show ?case by (cases xs) auto
qed

lemma add_redirects_neither:
  assumes "\<not> sublist ''-o'' m" "\<not> sublist ''-e'' m" "\<not> sublist ''-e'' d"
  shows "add_redirects d m = m @ '' -o '' @ d @ '' -e '' @ d"
proof -
  have "\<not> str_in ''-e'' (m @ CHR '' '' # ''-o '' @ d)"
    using assms by (subst str_in_append2) (simp add: str_in_sublist [symmetric])
  then show ?thesis
    using assms by (simp add: add_redirects_def str_in_sublist [symmetric])
qed

lemma sublist_flag_appended:
  "sublist flag (q @ CHR '' '' # flag @ CHR '' '' # d)"
proof -
  have "q @ CHR '' '' # flag @ CHR '' '' # d = (q @ '' '') @ flag @ ('' '' @ d)" by simp
  then show ?thesis unfolding sublist_def by blast
qed

lemma add_redirects_contains:
  "sublist ''-o'' (add_redirects d m) \<and> sublist ''-e'' (add_redirects d m)"
proof -
  let ?q1 = "if \<not> str_in ''-o'' m then m @ '' -o '' @ d else m"
  have o: "sublist ''-o'' ?q1"
    using sublist_flag_appended [of "''-o''" m d] by (simp add: str_in_sublist)
  have e: "sublist ''-e'' (add_redirects d m)"
    using sublist_flag_appended [of "''-e''" ?q1 d]
    by (simp add: add_redirects_def str_in_sublist Let_def)
  have "sublist ''-o'' (add_redirects d m)"
    using o by (auto simp: add_redirects_def Let_def sublist_append)
  with e show ?thesis by simp
qed

lemma add_redirects_both:
  "sublist ''-o'' m \<Longrightarrow> sublist ''-e'' m \<Longrightarrow> add_redirects d m = m"
  by (simp add: add_redirects_def str_in_sublist)

section \<open>Facts about the retry loop\<close>

lemma submit_loop_pending:
  "submit_loop run self nd cmd args old tries w = (r, w') \<Longrightarrow> pending w' = pending w"
proof (induction run self nd cmd args old tries w rule: submit_loop.induct)
  case (1 run self nd cmd args oldlevel tries w)
  let ?w1 = "w\<lparr>invoked := invoked w @ [(cmd, args)]\<rparr>"
  show ?case
  proof (cases "run cmd args (length (invoked w))")
    case (Returned out)
    with "1.prems" show ?thesis
      by (subst (asm) submit_loop.simps) (auto simp: Let_def)
  next
    case (Escaped b)
    with "1.prems" show ?thesis
      by (subst (asm) submit_loop.simps) (auto simp: Let_def)
  next
    case (Raised e)
    show ?thesis
    proof (cases "tries < max_tries self")
      case False
      with Raised "1.prems" show ?thesis
        by (subst (asm) submit_loop.simps) (auto simp: Let_def)
    next
      case True
      show ?thesis
      proof (cases "time_sleep (retry_timeout self) ?w1")
        case (Inl err)
        with True Raised "1.prems" show ?thesis
          by (subst (asm) submit_loop.simps) (auto simp: Let_def)
      next
        case (Inr w2)
        then have p: "pending w2 = pending w"
          by (auto simp: time_sleep_def split: if_splits)
        from Inr True Raised "1.prems"
        have "submit_loop run self nd cmd args oldlevel (tries + 1) w2 = (r, w')"
          by (subst (asm) submit_loop.simps) (simp add: Let_def)
        from "1.IH" [OF refl Raised True Inr this] p show ?thesis by simp
      qed
    qed
  qed
qed

lemma submit_loop_level:
  "submit_loop run self nd cmd args old tries w = (r, w') \<Longrightarrow>
     (case r of
        Inr out \<Rightarrow> iflogger_level w' = iflogger_level w
      | Inl (RuntimeError m) \<Rightarrow> iflogger_level w' = old
      | Inl (ValueError m) \<Rightarrow> iflogger_level w' = iflogger_level w
      | Inl (BaseException b) \<Rightarrow> iflogger_level w' = iflogger_level w
      | Inl _ \<Rightarrow> False)"
proof (induction run self nd cmd args old tries w rule: submit_loop.induct)
  case (1 run self nd cmd args oldlevel tries w)
  let ?w1 = "w\<lparr>invoked := invoked w @ [(cmd, args)]\<rparr>"
  show ?case
  proof (cases "run cmd args (length (invoked w))")
    case (Returned out)
    with "1.prems" show ?thesis
      by (subst (asm) submit_loop.simps) (auto simp: Let_def)
  next
    case (Escaped b)
    with "1.prems" show ?thesis
      by (subst (asm) submit_loop.simps) (auto simp: Let_def)
  next
    case (Raised e)
    show ?thesis
    proof (cases "tries < max_tries self")
      case False
      with Raised "1.prems" show ?thesis
        by (subst (asm) submit_loop.simps) (auto simp: Let_def)
    next
      case True
      show ?thesis
      proof (cases "time_sleep (retry_timeout self) ?w1")
        case (Inl err)
        then have "err = ValueError ''sleep length must be non-negative''"
          by (auto simp: time_sleep_def split: if_splits)
        with Inl True Raised "1.prems" show ?thesis
          by (subst (asm) submit_loop.simps) (auto simp: Let_def)
      next
        case (Inr w2)
        then have p: "iflogger_level w2 = iflogger_level w"
          by (auto simp: time_sleep_def split: if_splits)
        from Inr True Raised "1.prems"
        have "submit_loop run self nd cmd args oldlevel (tries + 1) w2 = (r, w')"
          by (subst (asm) submit_loop.simps) (simp add: Let_def)
        from "1.IH" [OF refl Raised True Inr this] p show ?thesis
          by (auto split: sum.splits error.splits)
      qed
    qed
  qed
qed

lemma submit_loop_step:
  assumes "run cmd args (length (invoked w)) = Raised e"
    and "tries < max_tries self" and "0 \<le> retry_timeout self"
  shows "submit_loop run self nd cmd args old tries w
           = submit_loop run self nd cmd args old (tries + 1)
               (w\<lparr>invoked := invoked w @ [(cmd, args)],
                  sleeps := sleeps w @ [retry_timeout self]\<rparr>)"
  using assms by (subst submit_loop.simps) (simp add: Let_def time_sleep_def)

lemma submit_loop_sleep_raises:
  assumes "run cmd args (length (invoked w)) = Raised e"
    and "tries < max_tries self" and "retry_timeout self < 0"
  shows "submit_loop run self nd cmd args old tries w
           = (Inl (ValueError ''sleep length must be non-negative''),
              w\<lparr>invoked := invoked w @ [(cmd, args)]\<rparr>)"
  using assms by (subst submit_loop.simps) (simp add: Let_def time_sleep_def)

lemma submit_loop_escapes:
  assumes "run cmd args (length (invoked w)) = Escaped b"
  shows "submit_loop run self nd cmd args old tries w
           = (Inl (BaseException b), w\<lparr>invoked := invoked w @ [(cmd, args)]\<rparr>)"
  using assms by (subst submit_loop.simps) (simp add: Let_def)


lemma submit_loop_exhaust:
  assumes "\<forall>i\<le>n. run cmd args (length (invoked w) + i) = Raised (errs i)"
    and "n = nat (max_tries self - tries)"
    and "n = 0 \<or> 0 \<le> retry_timeout self"
  shows "submit_loop run self nd cmd args old tries w =
           (Inl (RuntimeError
                   (''Could not submit pbs task for node '' @ n_id nd @ [CHR 0x0A] @ errs n)),
            w\<lparr>sleeps := sleeps w @ replicate n (retry_timeout self),
              invoked := invoked w @ replicate (Suc n) (cmd, args),
              iflogger_level := old\<rparr>)"
  using assms
proof (induction n arbitrary: tries w errs)
  case 0
  then have "\<not> tries < max_tries self" by simp
  with 0 show ?case by (subst submit_loop.simps) (simp add: Let_def)
next
  case (Suc n)
  have e: "run cmd args (length (invoked w)) = Raised (errs 0)"
    using Suc.prems(1) by force
  let ?w = "w\<lparr>invoked := invoked w @ [(cmd, args)],
              sleeps := sleeps w @ [retry_timeout self]\<rparr>"
  have a: "\<forall>i\<le>n. run cmd args (length (invoked ?w) + i) = Raised (errs (Suc i))"
    using Suc.prems(1) by (auto dest: spec [where x = "Suc i" for i])
  have lt: "tries < max_tries self" using Suc.prems(2) by linarith
  have c: "n = nat (max_tries self - (tries + 1))" using Suc.prems(2) by linarith
  have nn: "0 \<le> retry_timeout self" using Suc.prems(3) by simp
  then have d: "n = 0 \<or> 0 \<le> retry_timeout self" by simp
  have "submit_loop run self nd cmd args old tries w
        = submit_loop run self nd cmd args old (tries + 1) ?w"
    using e lt nn by (rule submit_loop_step)
  also have "\<dots> = (Inl (RuntimeError
                   (''Could not submit pbs task for node '' @ n_id nd @ [CHR 0x0A] @ errs (Suc n))),
            ?w\<lparr>sleeps := sleeps ?w @ replicate n (retry_timeout self),
              invoked := invoked ?w @ replicate (Suc n) (cmd, args),
              iflogger_level := old\<rparr>)"
    by (rule Suc.IH [OF a c d])
  finally show ?case by (simp add: replicate_append_same)
qed

section \<open>Facts about the whole method\<close>

lemma build_command_ok:
  assumes "merged_qsubargs self nd = Inr m" and "environ ''LOGNAME'' = Some user"
  shows "build_command side environ self scriptfile nd =
           Inr (''echo'',
                cmd_args side (add_redirects (dirname scriptfile) m)
                  (jobname_of user (n_hierarchy nd) (n_id nd) (max_jobname_len self))
                  scriptfile)"
  using assms by (simp add: build_command_def)

lemma submit_batchtask_build_error:
  "build_command side environ self scriptfile nd = Inl e \<Longrightarrow>
     submit_batchtask run side environ self scriptfile nd w = (Inl e, w)"
  by (simp add: submit_batchtask_def)

lemma submit_batchtask_loop_error:
  assumes "build_command side environ self scriptfile nd = Inr (cmd, args)"
    and "submit_loop run self nd cmd args (iflogger_level w) 0
           (w\<lparr>iflogger_level := CRITICAL\<rparr>) = (Inl e, w2)"
  shows "submit_batchtask run side environ self scriptfile nd w = (Inl e, w2)"
  using assms by (simp add: submit_batchtask_def)

lemma submit_batchtask_loop_ok:
  assumes "build_command side environ self scriptfile nd = Inr (cmd, args)"
    and "submit_loop run self nd cmd args (iflogger_level w) 0
           (w\<lparr>iflogger_level := CRITICAL\<rparr>) = (Inr stdout, w2)"
  shows "submit_batchtask run side environ self scriptfile nd w =
           (Inr (takeWhile (\<lambda>c. c \<noteq> CHR ''.'') stdout),
            w2\<lparr>iflogger_level := iflogger_level w,
               pending := (pending w2)(takeWhile (\<lambda>c. c \<noteq> CHR ''.'') stdout
                                         \<mapsto> n_output_dir nd)\<rparr>)"
  using assms by (simp add: submit_batchtask_def parse_taskid_eq)

lemma flag_count_five:
  "flag_count f (m @ CHR '' '' # a @ CHR '' '' # d @ CHR '' '' # b @ CHR '' '' # d') =
     flag_count f m + flag_count f a + flag_count f d + flag_count f b + flag_count f d'"
  by (simp add: flag_count_append)

lemma flag_count_redirected:
  assumes "\<not> sublist ''-o'' m" "\<not> sublist ''-e'' m" "\<not> sublist ''-o'' d" "\<not> sublist ''-e'' d"
  shows "flag_count ''-o'' (m @ '' -o '' @ d @ '' -e '' @ d) = 1"
    and "flag_count ''-e'' (m @ '' -o '' @ d @ '' -e '' @ d) = 1"
proof -
  have shape: "m @ '' -o '' @ d @ '' -e '' @ d
                 = m @ CHR '' '' # ''-o'' @ CHR '' '' # d @ CHR '' '' # ''-e'' @ CHR '' '' # d"
    by simp
  have oo: "flag_count ''-o'' ''-o'' = 1" and oe: "flag_count ''-o'' ''-e'' = 0"
    and eo: "flag_count ''-e'' ''-o'' = 0" and ee: "flag_count ''-e'' ''-e'' = 1"
    by (simp_all add: flag_count_def)
  show "flag_count ''-o'' (m @ '' -o '' @ d @ '' -e '' @ d) = 1"
    unfolding shape flag_count_five using assms oo oe by (simp add: flag_count_absent)
  show "flag_count ''-e'' (m @ '' -o '' @ d @ '' -e '' @ d) = 1"
    unfolding shape flag_count_five using assms eo ee by (simp add: flag_count_absent)
qed

lemma split_join3:
  "split_chr c (join_str [c] [u, h, l]) = split_chr c u @ split_chr c h @ split_chr c l"
  using split_chr_append [of c u "h @ c # l"] split_chr_append [of c h l] by simp

lemma split_join2:
  "split_chr c (join_str [c] [u, l]) = split_chr c u @ split_chr c l"
  using split_chr_append [of c u l] by simp

lemma takeWhile_no_sep: "c \<notin> set s \<Longrightarrow> takeWhile (\<lambda>x. x \<noteq> c) s = s"
  by (induction s) auto

lemma first_run_returns:
  "run cmd args (length (invoked w)) = Returned stdout \<Longrightarrow>
     submit_loop run self nd cmd args old 0 w =
       (Inr stdout, w\<lparr>invoked := invoked w @ [(cmd, args)]\<rparr>)"
  by (subst submit_loop.simps) (simp add: Let_def)

lemma submit_batchtask_exhaust:
  assumes b: "build_command side environ self scriptfile nd = Inr (cmd, args)"
    and r: "\<forall>i\<le>nat (max_tries self). run cmd args (length (invoked w) + i) = Raised (errs i)"
    and nn: "nat (max_tries self) = 0 \<or> 0 \<le> retry_timeout self"
  shows "submit_batchtask run side environ self scriptfile nd w =
           (Inl (RuntimeError (''Could not submit pbs task for node '' @ n_id nd
                                @ [CHR 0x0A] @ errs (nat (max_tries self)))),
            w\<lparr>sleeps := sleeps w @ replicate (nat (max_tries self)) (retry_timeout self),
              invoked := invoked w @ replicate (Suc (nat (max_tries self))) (cmd, args)\<rparr>)"
proof -
  let ?w1 = "w\<lparr>iflogger_level := CRITICAL\<rparr>"
  have "\<forall>i\<le>nat (max_tries self). run cmd args (length (invoked ?w1) + i) = Raised (errs i)"
    using r by simp
  then have "submit_loop run self nd cmd args (iflogger_level w) 0 ?w1 =
           (Inl (RuntimeError (''Could not submit pbs task for node '' @ n_id nd
                                @ [CHR 0x0A] @ errs (nat (max_tries self)))),
            ?w1\<lparr>sleeps := sleeps ?w1 @ replicate (nat (max_tries self)) (retry_timeout self),
              invoked := invoked ?w1 @ replicate (Suc (nat (max_tries self))) (cmd, args),
              iflogger_level := iflogger_level w\<rparr>)"
    using nn by (intro submit_loop_exhaust) simp_all
  then show ?thesis
    using b by (simp add: submit_batchtask_loop_error)
qed

lemma logger_level_after_submit:
  "iflogger_level (snd (submit_batchtask run side environ self scriptfile nd w)) =
     (case fst (submit_batchtask run side environ self scriptfile nd w) of
        Inl (ValueError m) \<Rightarrow> CRITICAL
      | Inl (BaseException b) \<Rightarrow> CRITICAL
      | _ \<Rightarrow> iflogger_level w)"
proof (cases "build_command side environ self scriptfile nd")
  case (Inl e)
  then have "e = KeyError ''LOGNAME'' \<or> e = TypeError"
    by (auto simp: build_command_def merged_qsubargs_def Let_def
        split: sum.splits option.splits pyval.splits if_splits)
  with Inl show ?thesis by (auto simp: submit_batchtask_build_error)
next
  case (Inr ca)
  obtain cmd args where ca: "ca = (cmd, args)" by (cases ca)
  obtain r w2 where loop: "submit_loop run self nd cmd args (iflogger_level w) 0
           (w\<lparr>iflogger_level := CRITICAL\<rparr>) = (r, w2)"
    by (cases "submit_loop run self nd cmd args (iflogger_level w) 0
           (w\<lparr>iflogger_level := CRITICAL\<rparr>)")
  show ?thesis
  proof (cases r)
    case (Inl e)
    with Inr ca loop submit_loop_level [OF loop] show ?thesis
      by (cases e) (simp_all add: submit_batchtask_loop_error)
  next
    case r: (Inr stdout)
    with Inr ca loop show ?thesis by (simp add: submit_batchtask_loop_ok)
  qed
qed

section \<open>Status classification\<close>

text \<open>
  Claim C1. For every stdout/stderr pair returned by the status query, \<^verbatim>\<open>_is_pending\<close>
  returns false (job finished) exactly when stdout contains \<^verbatim>\<open>job_state = C\<close>, or stderr
  contains \<^verbatim>\<open>Job has finished\<close>, or stderr contains \<^verbatim>\<open>Unknown Job Id\<close>; for every other
  pair it returns true (pending). Containment is stated with \<^const>\<open>sublist\<close>.
\<close>

theorem is_pending_classification:
  "is_pending stdout stderr = False \<longleftrightarrow>
     (sublist ''job_state = C'' stdout
      \<or> sublist ''Job has finished'' stderr
      \<or> sublist ''Unknown Job Id'' stderr)"
  by (auto simp: is_pending_def success_def errmsg_def str_in_sublist)

section \<open>Job name\<close>

text \<open>
  Claim C4. For every user name, hierarchy and leaf id, the job name is built by joining
  user name, hierarchy and leaf id with a dot (user name and leaf id only when the
  hierarchy is empty), splitting on the dot, reversing the items, joining them again with
  a dot, and keeping the first \<open>n\<close> characters. Equivalently, the items of the leaf id
  come first, then those of the hierarchy, then those of the user name, each group
  reversed. User \<^verbatim>\<open>alice\<close>, hierarchy \<^verbatim>\<open>wf.branch\<close>, leaf id \<^verbatim>\<open>node1\<close> and length 15
  give \<^verbatim>\<open>node1.branch.wf\<close>.
\<close>

theorem jobname_reversed_segments:
  "jobname_of user hierarchy ident (int n) =
     take n (join_str ''.'' (rev (split_chr CHR ''.''
       (if hierarchy = [] then user @ ''.'' @ ident
        else user @ ''.'' @ hierarchy @ ''.'' @ ident))))
   \<and> jobname_of user hierarchy ident (int n) =
     take n (join_str ''.''
       (rev (split_chr CHR ''.'' ident)
        @ (if hierarchy = [] then [] else rev (split_chr CHR ''.'' hierarchy))
        @ rev (split_chr CHR ''.'' user)))
   \<and> jobname_of ''alice'' ''wf.branch'' ''node1'' 15 = ''node1.branch.wf''"
proof (intro conjI)
  show "jobname_of user hierarchy ident (int n) =
     take n (join_str ''.'' (rev (split_chr CHR ''.''
       (if hierarchy = [] then user @ ''.'' @ ident
        else user @ ''.'' @ hierarchy @ ''.'' @ ident))))"
    by (simp add: jobname_of_def slice0_def)
  show "jobname_of user hierarchy ident (int n) =
     take n (join_str ''.''
       (rev (split_chr CHR ''.'' ident)
        @ (if hierarchy = [] then [] else rev (split_chr CHR ''.'' hierarchy))
        @ rev (split_chr CHR ''.'' user)))"
    using split_join3 [of "CHR ''.''" user hierarchy ident]
      split_join2 [of "CHR ''.''" user ident]
    by (simp add: jobname_of_def slice0_def Let_def)
  show "jobname_of ''alice'' ''wf.branch'' ''node1'' 15 = ''node1.branch.wf''"
    by code_simp
qed

text \<open>
  Claim C9. For every user name, hierarchy and leaf id, and every non-negative configured
  maximum, the job name is at most that many characters long.
\<close>

theorem jobname_length_bounded:
  "0 \<le> maxlen \<Longrightarrow> length (jobname_of user hierarchy ident maxlen) \<le> nat maxlen"
  by (simp add: jobname_of_def slice0_length)

theorem jobname_length_bounded_witness:
  "(0::int) \<le> 15 \<and> length (jobname_of ''alice'' ''wf.branch'' ''node1'' 15) \<le> nat 15"
  using jobname_length_bounded [of 15 "''alice''" "''wf.branch''" "''node1''"] by simp

section \<open>Registry\<close>

text \<open>
  Claim C6. A call of \<^verbatim>\<open>_submit_batchtask\<close> that returns a task id leaves the registry
  equal to the old one with that task id mapped to the node's output directory; a call
  that raises, whatever it raises, leaves the registry as it was.
\<close>

theorem registry_updated_iff_success:
  "(case submit_batchtask run side environ self scriptfile nd w of
      (Inr taskid, w') \<Rightarrow> pending w' = (pending w)(taskid \<mapsto> n_output_dir nd)
    | (Inl e, w') \<Rightarrow> pending w' = pending w)"
proof (cases "build_command side environ self scriptfile nd")
  case (Inl e)
  then show ?thesis by (simp add: submit_batchtask_build_error)
next
  case (Inr ca)
  obtain cmd args where ca: "ca = (cmd, args)" by (cases ca)
  obtain r w2 where loop: "submit_loop run self nd cmd args (iflogger_level w) 0
           (w\<lparr>iflogger_level := CRITICAL\<rparr>) = (r, w2)"
    by (cases "submit_loop run self nd cmd args (iflogger_level w) 0
           (w\<lparr>iflogger_level := CRITICAL\<rparr>)")
  have p: "pending w2 = pending w"
    using submit_loop_pending [OF loop] by simp
  show ?thesis
  proof (cases r)
    case (Inl e)
    with Inr ca loop p show ?thesis by (simp add: submit_batchtask_loop_error)
  next
    case r: (Inr stdout)
    with Inr ca loop p show ?thesis by (simp add: submit_batchtask_loop_ok)
  qed
qed

section \<open>Logger level\<close>

text \<open>
  Claim C8 says that on every exit path of \<^verbatim>\<open>_submit_batchtask\<close> the level of the
  interface logger is restored to the value it had before the call. The method restores
  it by hand before the \<^verbatim>\<open>RuntimeError\<close> and after the loop, with no \<^verbatim>\<open>finally\<close>. With
  \<^verbatim>\<open>retry_timeout = -1\<close> and a command that raises, \<^verbatim>\<open>sleep\<close> raises \<^verbatim>\<open>ValueError\<close> inside
  the handler and the method ends with the logger at \<^verbatim>\<open>CRITICAL\<close> (50) instead of the
  20 it had; the same happens when \<^verbatim>\<open>cmd.run()\<close> raises \<^verbatim>\<open>KeyboardInterrupt\<close>.
\<close>

theorem logger_left_at_critical:
  "submit_batchtask (\<lambda>cmd args i. Raised ''qsub: cannot connect to server'')
      Upstream [''LOGNAME'' \<mapsto> ''alice'']
      (PBSPlugin_init
         (Some \<lparr>a_retry_timeout = Some (- 1), a_max_tries = None,
                a_max_jobname_len = None\<rparr>) [])
      ''/work/batchscript_n1.sh''
      \<lparr>n_hierarchy = [], n_id = ''n1'', n_plugin_args = Map.empty,
       n_output_dir = ''/work/n1''\<rparr>
      \<lparr>pending = Map.empty, iflogger_level = 20, sleeps = [], invoked = []\<rparr>
     = (Inl (ValueError ''sleep length must be non-negative''),
        \<lparr>pending = Map.empty, iflogger_level = 50, sleeps = [],
         invoked = [(''echo'', '' -o /work -e /work -N n1.alice /work/batchscript_n1.sh'')]\<rparr>)
   \<and> submit_batchtask (\<lambda>cmd args i. Escaped ''KeyboardInterrupt'')
      Upstream [''LOGNAME'' \<mapsto> ''alice''] (PBSPlugin_init None [])
      ''/work/batchscript_n1.sh''
      \<lparr>n_hierarchy = [], n_id = ''n1'', n_plugin_args = Map.empty,
       n_output_dir = ''/work/n1''\<rparr>
      \<lparr>pending = Map.empty, iflogger_level = 20, sleeps = [], invoked = []\<rparr>
     = (Inl (BaseException ''KeyboardInterrupt''),
        \<lparr>pending = Map.empty, iflogger_level = 50, sleeps = [],
         invoked = [(''echo'', '' -o /work -e /work -N n1.alice /work/batchscript_n1.sh'')]\<rparr>)"
proof -
  let ?nd = "\<lparr>n_hierarchy = [], n_id = ''n1'', n_plugin_args = Map.empty,
       n_output_dir = ''/work/n1''\<rparr>"
  let ?w = "\<lparr>pending = Map.empty, iflogger_level = 20, sleeps = [], invoked = []\<rparr>"
  let ?neg = "PBSPlugin_init
         (Some \<lparr>a_retry_timeout = Some (- 1), a_max_tries = None,
                a_max_jobname_len = None\<rparr>) []"
  let ?args = "'' -o /work -e /work -N n1.alice /work/batchscript_n1.sh''"
  have b1: "build_command Upstream [''LOGNAME'' \<mapsto> ''alice''] ?neg
              ''/work/batchscript_n1.sh'' ?nd = Inr (''echo'', ?args)"
    by code_simp
  have b2: "build_command Upstream [''LOGNAME'' \<mapsto> ''alice''] (PBSPlugin_init None [])
              ''/work/batchscript_n1.sh'' ?nd = Inr (''echo'', ?args)"
    by code_simp
  have l1: "submit_loop (\<lambda>cmd args i. Raised ''qsub: cannot connect to server'') ?neg ?nd
              ''echo'' ?args (iflogger_level ?w) 0 (?w\<lparr>iflogger_level := CRITICAL\<rparr>)
            = (Inl (ValueError ''sleep length must be non-negative''),
               ?w\<lparr>iflogger_level := CRITICAL, invoked := [(''echo'', ?args)]\<rparr>)"
    by (subst submit_loop_sleep_raises [where e = "''qsub: cannot connect to server''"])
      (simp_all add: PBSPlugin_init_def)
  have l2: "submit_loop (\<lambda>cmd args i. Escaped ''KeyboardInterrupt'') (PBSPlugin_init None [])
              ?nd ''echo'' ?args (iflogger_level ?w) 0 (?w\<lparr>iflogger_level := CRITICAL\<rparr>)
            = (Inl (BaseException ''KeyboardInterrupt''),
               ?w\<lparr>iflogger_level := CRITICAL, invoked := [(''echo'', ?args)]\<rparr>)"
    by (subst submit_loop_escapes [where b = "''KeyboardInterrupt''"]) simp_all
  show ?thesis
    using submit_batchtask_loop_error [OF b1 l1] submit_batchtask_loop_error [OF b2 l2]
    by (simp add: CRITICAL_def)
qed

section \<open>Submission command\<close>

text \<open>
  Claim C3 says that the command line is the scheduler's submit tool followed by the
  merged arguments, \<^verbatim>\<open>-o <dir>\<close>, \<^verbatim>\<open>-e <dir>\<close>, \<^verbatim>\<open>-N <jobName>\<close> and the script path, with
  \<^verbatim>\<open>-o\<close> and \<^verbatim>\<open>-e\<close> each present exactly once, defaulting to the script's directory when
  the caller gave none. For a script in \<^verbatim>\<open>/home/my-exp\<close> and a caller who gave no
  arguments, the method builds no \<^verbatim>\<open>-e\<close> flag at all: the test \<^verbatim>\<open>"-e" not in qsubargs\<close>
  looks for the text, and finds it in the directory that the \<^verbatim>\<open>-o\<close> default has just
  appended. The command run is \<^verbatim>\<open>echo\<close> on both sides of the merge; with the upstream
  argument string it only prints the arguments and submits nothing.
\<close>

theorem stderr_flag_missing:
  "build_command Upstream [''LOGNAME'' \<mapsto> ''alice''] (PBSPlugin_init None [])
     ''/home/my-exp/batchscript_n1.sh''
     \<lparr>n_hierarchy = [], n_id = ''n1'', n_plugin_args = Map.empty,
      n_output_dir = ''/home/my-exp/n1''\<rparr>
     = Inr (''echo'', '' -o /home/my-exp -N n1.alice /home/my-exp/batchscript_n1.sh'')
   \<and> flag_count ''-o'' '' -o /home/my-exp -N n1.alice /home/my-exp/batchscript_n1.sh'' = 1
   \<and> flag_count ''-e'' '' -o /home/my-exp -N n1.alice /home/my-exp/batchscript_n1.sh'' = 0
   \<and> build_command Head [''LOGNAME'' \<mapsto> ''alice''] (PBSPlugin_init None [])
     ''/home/my-exp/batchscript_n1.sh''
     \<lparr>n_hierarchy = [], n_id = ''n1'', n_plugin_args = Map.empty,
      n_output_dir = ''/home/my-exp/n1''\<rparr>
     = Inr (''echo'',
            [CHR '' '', CHR 0x22]
            @ ''/home/predatt/giaald/.conda/envs/giacomo/bin/python /home/my-exp/n1.py''
            @ [CHR 0x22] @ '' | qsub  -o /home/my-exp -N n1.alice'')
   \<and> flag_count ''-e''
        ([CHR '' '', CHR 0x22]
         @ ''/home/predatt/giaald/.conda/envs/giacomo/bin/python /home/my-exp/n1.py''
         @ [CHR 0x22] @ '' | qsub  -o /home/my-exp -N n1.alice'') = 0"
  by code_simp

section \<open>Retries\<close>




text \<open>
  Claim C2 says that a command that always raises is attempted exactly \<^verbatim>\<open>_max_tries\<close>
  times (2 by default) before \<^verbatim>\<open>RuntimeError\<close>. With the default configuration the
  command is run three times and two sleeps are taken: the counter \<^verbatim>\<open>tries\<close> is compared
  with \<^verbatim>\<open>_max_tries\<close> before it is incremented, so it counts the retries, not the
  attempts. The error names the node and carries the text of the last exception.
\<close>

theorem submit_exhaustion_three_runs:
  "(case submit_batchtask (\<lambda>cmd args i. Raised ''qsub: cannot connect to server'')
          Upstream [''LOGNAME'' \<mapsto> ''alice''] (PBSPlugin_init None [])
          ''/work/batchscript_n1.sh''
          \<lparr>n_hierarchy = ''wf'', n_id = ''n1'', n_plugin_args = Map.empty,
           n_output_dir = ''/work/n1''\<rparr>
          \<lparr>pending = Map.empty, iflogger_level = 20, sleeps = [], invoked = []\<rparr>
    of (r, w') \<Rightarrow>
      r = Inl (RuntimeError (''Could not submit pbs task for node n1'' @ [CHR 0x0A]
                              @ ''qsub: cannot connect to server''))
      \<and> length (invoked w') = 3 \<and> sleeps w' = [2, 2])"
proof -
  let ?nd = "\<lparr>n_hierarchy = ''wf'', n_id = ''n1'', n_plugin_args = Map.empty,
           n_output_dir = ''/work/n1''\<rparr>"
  let ?self = "PBSPlugin_init None []"
  have m: "merged_qsubargs ?self ?nd = Inr []"
    by (simp add: merged_qsubargs_def PBSPlugin_init_def)
  have t: "nat (max_tries ?self) = 2" by (simp add: PBSPlugin_init_def)
  have rt: "retry_timeout ?self = 2" by (simp add: PBSPlugin_init_def)
  note b = build_command_ok [OF m, of "[''LOGNAME'' \<mapsto> ''alice'']" "''alice''" Upstream
      "''/work/batchscript_n1.sh''", simplified]
  show ?thesis
    using submit_batchtask_exhaust [OF b,
        of "\<lambda>cmd args i. Raised ''qsub: cannot connect to server''"
          "\<lparr>pending = Map.empty, iflogger_level = 20, sleeps = [], invoked = []\<rparr>"
          "\<lambda>i. ''qsub: cannot connect to server''"]
    by (simp add: t rt numeral_2_eq_2)
qed

section \<open>Task id\<close>

text \<open>
  Claim C10. Reading the task id never raises: it is the text of the reply before the
  first dot, the whole reply when there is no dot, and the empty string for an empty
  reply. Whenever the retry loop delivers a reply, that text is returned and registered
  with the node's output directory.
\<close>

theorem taskid_extraction_total:
  "parse_taskid stdout = Inr (takeWhile (\<lambda>c. c \<noteq> CHR ''.'') stdout)
   \<and> (CHR ''.'' \<notin> set stdout \<longrightarrow> parse_taskid stdout = Inr stdout)
   \<and> parse_taskid [] = Inr []
   \<and> (build_command side environ self scriptfile nd = Inr (cmd, args)
        \<and> submit_loop run self nd cmd args (iflogger_level w) 0
             (w\<lparr>iflogger_level := CRITICAL\<rparr>) = (Inr stdout, w2)
      \<longrightarrow> fst (submit_batchtask run side environ self scriptfile nd w)
            = Inr (takeWhile (\<lambda>c. c \<noteq> CHR ''.'') stdout)
          \<and> pending (snd (submit_batchtask run side environ self scriptfile nd w))
            = (pending w)(takeWhile (\<lambda>c. c \<noteq> CHR ''.'') stdout \<mapsto> n_output_dir nd))"
proof (intro conjI impI)
  show "parse_taskid stdout = Inr (takeWhile (\<lambda>c. c \<noteq> CHR ''.'') stdout)"
    by (rule parse_taskid_eq)
  show "parse_taskid stdout = Inr stdout" if "CHR ''.'' \<notin> set stdout"
    using that by (simp add: parse_taskid_eq takeWhile_no_sep)
  show "parse_taskid [] = Inr []"
    by (simp add: parse_taskid_eq)
next
  assume a: "build_command side environ self scriptfile nd = Inr (cmd, args)
        \<and> submit_loop run self nd cmd args (iflogger_level w) 0
             (w\<lparr>iflogger_level := CRITICAL\<rparr>) = (Inr stdout, w2)"
  then have p: "pending w2 = pending w"
    using submit_loop_pending [of run self nd cmd args "iflogger_level w" 0
        "w\<lparr>iflogger_level := CRITICAL\<rparr>" "Inr stdout" w2] by simp
  from a have s: "submit_batchtask run side environ self scriptfile nd w =
           (Inr (takeWhile (\<lambda>c. c \<noteq> CHR ''.'') stdout),
            w2\<lparr>iflogger_level := iflogger_level w,
               pending := (pending w2)(takeWhile (\<lambda>c. c \<noteq> CHR ''.'') stdout
                                         \<mapsto> n_output_dir nd)\<rparr>)"
    by (simp add: submit_batchtask_loop_ok)
  show "fst (submit_batchtask run side environ self scriptfile nd w)
            = Inr (takeWhile (\<lambda>c. c \<noteq> CHR ''.'') stdout)"
    using s by simp
  show "pending (snd (submit_batchtask run side environ self scriptfile nd w))
            = (pending w)(takeWhile (\<lambda>c. c \<noteq> CHR ''.'') stdout \<mapsto> n_output_dir nd)"
    using s p by simp
qed

theorem taskid_extraction_total_witness:
  "parse_taskid ''7.pbs.example.org'' = Inr ''7''
   \<and> fst (submit_batchtask (\<lambda>cmd args i. Returned ''7.pbs.example.org'')
          Upstream [''LOGNAME'' \<mapsto> ''alice''] (PBSPlugin_init None [])
          ''/work/batchscript_n1.sh''
          \<lparr>n_hierarchy = ''wf'', n_id = ''n1'', n_plugin_args = Map.empty,
           n_output_dir = ''/work/n1''\<rparr>
          \<lparr>pending = Map.empty, iflogger_level = 20, sleeps = [], invoked = []\<rparr>)
      = Inr ''7''
   \<and> pending (snd (submit_batchtask (\<lambda>cmd args i. Returned ''7.pbs.example.org'')
          Upstream [''LOGNAME'' \<mapsto> ''alice''] (PBSPlugin_init None [])
          ''/work/batchscript_n1.sh''
          \<lparr>n_hierarchy = ''wf'', n_id = ''n1'', n_plugin_args = Map.empty,
           n_output_dir = ''/work/n1''\<rparr>
          \<lparr>pending = Map.empty, iflogger_level = 20, sleeps = [], invoked = []\<rparr>))
      = [''7'' \<mapsto> ''/work/n1'']"
proof -
  let ?nd = "\<lparr>n_hierarchy = ''wf'', n_id = ''n1'', n_plugin_args = Map.empty,
           n_output_dir = ''/work/n1''\<rparr>"
  let ?self = "PBSPlugin_init None []"
  let ?w = "\<lparr>pending = Map.empty, iflogger_level = 20, sleeps = [], invoked = []\<rparr>"
  let ?run = "\<lambda>cmd args i. Returned ''7.pbs.example.org''"
  have m: "merged_qsubargs ?self ?nd = Inr []"
    by (simp add: merged_qsubargs_def PBSPlugin_init_def)
  note b = build_command_ok [OF m, of "[''LOGNAME'' \<mapsto> ''alice'']" "''alice''" Upstream
      "''/work/batchscript_n1.sh''", simplified]
  note l = first_run_returns [of ?run _ _ "?w\<lparr>iflogger_level := CRITICAL\<rparr>"
      "''7.pbs.example.org''" ?self ?nd "iflogger_level ?w", simplified]
  show ?thesis
    using taskid_extraction_total [of "''7.pbs.example.org''" Upstream
        "[''LOGNAME'' \<mapsto> ''alice'']" ?self "''/work/batchscript_n1.sh''" ?nd] b l
    by simp
qed

text \<open>
  Claim C5 says that a reply without a parsable task id makes \<^verbatim>\<open>_submit_batchtask\<close>
  raise instead of registering a key. An empty reply is accepted: the call returns the
  empty string and registers it.
\<close>

theorem malformed_reply_registered:
  "fst (submit_batchtask (\<lambda>cmd args i. Returned [])
          Upstream [''LOGNAME'' \<mapsto> ''alice''] (PBSPlugin_init None [])
          ''/work/batchscript_n1.sh''
          \<lparr>n_hierarchy = ''wf'', n_id = ''n1'', n_plugin_args = Map.empty,
           n_output_dir = ''/work/n1''\<rparr>
          \<lparr>pending = Map.empty, iflogger_level = 20, sleeps = [], invoked = []\<rparr>)
      = Inr []
   \<and> pending (snd (submit_batchtask (\<lambda>cmd args i. Returned [])
          Upstream [''LOGNAME'' \<mapsto> ''alice''] (PBSPlugin_init None [])
          ''/work/batchscript_n1.sh''
          \<lparr>n_hierarchy = ''wf'', n_id = ''n1'', n_plugin_args = Map.empty,
           n_output_dir = ''/work/n1''\<rparr>
          \<lparr>pending = Map.empty, iflogger_level = 20, sleeps = [], invoked = []\<rparr>)) []
      = Some ''/work/n1''"
proof -
  let ?nd = "\<lparr>n_hierarchy = ''wf'', n_id = ''n1'', n_plugin_args = Map.empty,
           n_output_dir = ''/work/n1''\<rparr>"
  let ?self = "PBSPlugin_init None []"
  let ?w = "\<lparr>pending = Map.empty, iflogger_level = 20, sleeps = [], invoked = []\<rparr>"
  let ?run = "\<lambda>cmd args i. Returned []"
  have m: "merged_qsubargs ?self ?nd = Inr []"
    by (simp add: merged_qsubargs_def PBSPlugin_init_def)
  note b = build_command_ok [OF m, of "[''LOGNAME'' \<mapsto> ''alice'']" "''alice''" Upstream
      "''/work/batchscript_n1.sh''"]
  have l: "submit_loop ?run ?self ?nd cmd args (iflogger_level ?w) 0
             (?w\<lparr>iflogger_level := CRITICAL\<rparr>)
           = (Inr [], ?w\<lparr>iflogger_level := CRITICAL, invoked := [(cmd, args)]\<rparr>)" for cmd args
    by (subst submit_loop.simps) (simp add: Let_def)
  show ?thesis
    using submit_batchtask_loop_ok [OF b l, simplified] by simp
qed

text \<open>
  Claim C5, as the code has it. When the reply delivered by the retry loop contains no
  dot, no error is raised: the whole reply is returned as the task id and registered with
  the node's output directory, and the logger level is the one before the call.
\<close>

theorem reply_without_dot_registered:
  assumes "build_command side environ self scriptfile nd = Inr (cmd, args)"
    and "submit_loop run self nd cmd args (iflogger_level w) 0
           (w\<lparr>iflogger_level := CRITICAL\<rparr>) = (Inr stdout, w2)"
    and "CHR ''.'' \<notin> set stdout"
  shows "submit_batchtask run side environ self scriptfile nd w =
           (Inr stdout,
            w2\<lparr>iflogger_level := iflogger_level w,
               pending := (pending w2)(stdout \<mapsto> n_output_dir nd)\<rparr>)"
  using submit_batchtask_loop_ok [OF assms(1,2)] assms(3) by (simp add: takeWhile_no_sep)

theorem reply_without_dot_registered_witness:
  "submit_batchtask (\<lambda>cmd args i. Returned ''Unable to contact server'')
          Upstream [''LOGNAME'' \<mapsto> ''alice''] (PBSPlugin_init None [])
          ''/work/batchscript_n1.sh''
          \<lparr>n_hierarchy = [], n_id = ''n1'', n_plugin_args = Map.empty,
           n_output_dir = ''/work/n1''\<rparr>
          \<lparr>pending = Map.empty, iflogger_level = 20, sleeps = [], invoked = []\<rparr>
     = (Inr ''Unable to contact server'',
        \<lparr>pending = [''Unable to contact server'' \<mapsto> ''/work/n1''], iflogger_level = 20,
         sleeps = [],
         invoked = [(''echo'', '' -o /work -e /work -N n1.alice /work/batchscript_n1.sh'')]\<rparr>)"
proof -
  let ?nd = "\<lparr>n_hierarchy = [], n_id = ''n1'', n_plugin_args = Map.empty,
           n_output_dir = ''/work/n1''\<rparr>"
  let ?self = "PBSPlugin_init None []"
  let ?w = "\<lparr>pending = Map.empty, iflogger_level = 20, sleeps = [], invoked = []\<rparr>"
  let ?run = "\<lambda>cmd args i. Returned ''Unable to contact server''"
  have b: "build_command Upstream [''LOGNAME'' \<mapsto> ''alice''] ?self
             ''/work/batchscript_n1.sh'' ?nd
           = Inr (''echo'', '' -o /work -e /work -N n1.alice /work/batchscript_n1.sh'')"
    by code_simp
  have l: "submit_loop ?run ?self ?nd cmd args (iflogger_level ?w) 0
             (?w\<lparr>iflogger_level := CRITICAL\<rparr>)
           = (Inr ''Unable to contact server'',
              ?w\<lparr>iflogger_level := CRITICAL, invoked := [(cmd, args)]\<rparr>)" for cmd args
    by (subst submit_loop.simps) (simp add: Let_def)
  show ?thesis
    using reply_without_dot_registered [OF b l] by simp
qed

end
